theory Spec2Isabelle
  imports Complex_Main "HOL-Library.Sublist"
begin

section \<open>Python values used by \<open>app.py\<close>\<close>

text \<open>
  A Python \<open>str\<close> is a sequence of Unicode code points; it is modelled as a list of
  code points, so that \<open>len\<close>, \<open>strip\<close> and equality count what Python counts.
  \<open>lit\<close> embeds an ASCII literal.
\<close>

type_synonym pystr = "nat list"

definition lit :: "string \<Rightarrow> pystr" where
  "lit s = map of_char s"

text \<open>An exception is its class name together with \<open>str(e)\<close>.\<close>

datatype exn = Exn string pystr

fun str_exn :: "exn \<Rightarrow> pystr" where
  "str_exn (Exn cls msg) = msg"

text \<open>
  \<open>except Exception\<close> catches the classes that derive from \<open>Exception\<close>. The classes that
  derive from \<open>BaseException\<close> only are the interpreter's own and the script-control
  exceptions of the UI framework.
\<close>

fun is_exception :: "exn \<Rightarrow> bool" where
  "is_exception (Exn cls msg) =
     (cls \<notin> set [''BaseException'', ''KeyboardInterrupt'', ''SystemExit'', ''GeneratorExit'',
                    ''CancelledError'', ''BaseExceptionGroup'', ''ScriptControlException'',
                    ''StopException'', ''RerunException''])"

definition bind :: "exn + 'a \<Rightarrow> ('a \<Rightarrow> exn + 'b) \<Rightarrow> exn + 'b" where
  "bind r k = (case r of Inl e \<Rightarrow> Inl e | Inr v \<Rightarrow> k v)"

text \<open>\<open>xs[i]\<close>: a negative index counts from the end, and an index out of range raises.\<close>

definition index :: "'a list \<Rightarrow> int \<Rightarrow> exn + 'a" where
  "index xs i =
     (if 0 \<le> i \<and> i < int (length xs) then Inr (xs ! nat i)
      else if i < 0 \<and> - int (length xs) \<le> i then Inr (xs ! nat (int (length xs) + i))
      else Inl (Exn ''IndexError'' (lit ''list index out of range'')))"

text \<open>The decimal text of an \<open>int\<close>, as an f-string field prints it.\<close>

fun digits :: "nat \<Rightarrow> pystr" where
  "digits n = (if n < 10 then [48 + n] else digits (n div 10) @ [48 + n mod 10])"

declare digits.simps [simp del]

definition str_int :: "int \<Rightarrow> pystr" where
  "str_int i = (if i < 0 then 45 # digits (nat (- i)) else digits (nat i))"

text \<open>\<open>sep.join(xs)\<close>.\<close>

fun join :: "pystr \<Rightarrow> pystr list \<Rightarrow> pystr" where
  "join sep [] = []"
| "join sep [x] = x"
| "join sep (x # y # ys) = x @ sep @ join sep (y # ys)"

section \<open>Context window (lines 79--88)\<close>

definition context_texts :: "pystr list \<Rightarrow> int \<Rightarrow> exn + pystr list" where
  "context_texts pages page_idx =
     (let num_pages = int (length pages) in
      bind (if page_idx > 1
            then bind (index pages (page_idx - 2)) (\<lambda>p.
                   Inr [lit ''[Prev: Page '' @ str_int (page_idx - 1) @ lit '']\<newline>'' @ p])
            else Inr []) (\<lambda>t1.
      bind (index pages (page_idx - 1)) (\<lambda>c.
      let t2 = t1 @ [lit ''[Current: Page '' @ str_int page_idx @ lit '']\<newline>'' @ c] in
      if page_idx < num_pages
      then bind (index pages page_idx) (\<lambda>n.
             Inr (t2 @ [lit ''[Next: Page '' @ str_int (page_idx + 1) @ lit '']\<newline>'' @ n]))
      else Inr t2)))"

definition context_text :: "pystr list \<Rightarrow> int \<Rightarrow> exn + pystr" where
  "context_text pages page_idx =
     bind (context_texts pages page_idx) (\<lambda>ts.
       Inr (join (lit ''\<newline>\<newline>-----\<newline>\<newline>'') (filter (\<lambda>t. t \<noteq> []) ts)))"

text \<open>
  The spec's reading of a labelled entry and of the separator line, used to state what
  the builder produces.
\<close>

definition labelled_entry :: "string \<Rightarrow> int \<Rightarrow> pystr \<Rightarrow> pystr" where
  "labelled_entry kind n body = lit ''['' @ lit kind @ lit '': Page '' @ str_int n @ lit '']\<newline>'' @ body"

definition separator :: pystr where
  "separator = lit ''\<newline>\<newline>-----\<newline>\<newline>''"

section \<open>Whitespace and \<open>str.strip()\<close>\<close>

text \<open>The code points for which \<open>str.isspace()\<close> holds; \<open>strip()\<close> removes exactly these.\<close>

definition is_space :: "nat \<Rightarrow> bool" where
  "is_space c =
     ((9 \<le> c \<and> c \<le> 13) \<or> (28 \<le> c \<and> c \<le> 32) \<or> c = 133 \<or> c = 160 \<or> c = 5760 \<or>
      (8192 \<le> c \<and> c \<le> 8202) \<or> c = 8232 \<or> c = 8233 \<or> c = 8239 \<or> c = 8287 \<or> c = 12288)"

definition lstrip :: "pystr \<Rightarrow> pystr" where
  "lstrip s = dropWhile is_space s"

definition rstrip :: "pystr \<Rightarrow> pystr" where
  "rstrip s = rev (dropWhile is_space (rev s))"

definition strip :: "pystr \<Rightarrow> pystr" where
  "strip s = rstrip (lstrip s)"

text \<open>\<open>sub in s\<close> on strings.\<close>

fun contains :: "pystr \<Rightarrow> pystr \<Rightarrow> bool" where
  "contains sub [] = (sub = [])"
| "contains sub (c # s) = (prefix sub (c # s) \<or> contains sub s)"

text \<open>
  \<open>repr(s)\<close> of a string, which the messages of \<open>KeyError\<close> and of the file errors
  print: double quotes when the string has an apostrophe and no double quote, single
  quotes otherwise; the quote, the backslash, tab, newline and carriage return escaped;
  a code point that is not printable written in hexadecimal. From code point 256 on,
  every code point other than whitespace is taken as printable.
\<close>

definition printable :: "nat \<Rightarrow> bool" where
  "printable c = ((32 \<le> c \<and> c < 127) \<or> (161 \<le> c \<and> c \<noteq> 173 \<and> \<not> is_space c))"

definition hex_digit :: "nat \<Rightarrow> nat" where
  "hex_digit d = (if d < 10 then 48 + d else 87 + d)"

fun hex :: "nat \<Rightarrow> nat \<Rightarrow> pystr" where
  "hex 0 n = []"
| "hex (Suc w) n = hex w (n div 16) @ [hex_digit (n mod 16)]"

definition repr_char :: "nat \<Rightarrow> nat \<Rightarrow> pystr" where
  "repr_char quote c =
     (if c = quote \<or> c = 92 then [92, c]
      else if c = 9 then [92, 116]
      else if c = 10 then [92, 110]
      else if c = 13 then [92, 114]
      else if printable c then [c]
      else if c < 256 then [92, 120] @ hex 2 c
      else if c < 65536 then [92, 117] @ hex 4 c
      else [92, 85] @ hex 8 c)"

definition repr :: "pystr \<Rightarrow> pystr" where
  "repr s =
     (let quote = (if 39 \<in> set s \<and> 34 \<notin> set s then 34 else 39)
      in [quote] @ concat (map (repr_char quote) s) @ [quote])"

section \<open>PDF text extraction (lines 55--65)\<close>

text \<open>
  The PDF library is outside the repository: \<open>pdfplumber.open\<close> is a parameter that
  either raises or yields the document's pages, each page standing for what its
  \<open>extract_text()\<close> returns (\<open>None\<close> or a string). The file system maps a path to the
  file's bytes and modification time; the time is only ever passed on and compared for
  equality.
\<close>

type_synonym bytes = "nat list"
type_synonym path = pystr
type_synonym pdf_page = "pystr option"
type_synonym pdf = "pdf_page list"

record fs_file =
  file_data :: bytes
  file_mtime :: real

type_synonym fs = "path \<rightharpoonup> fs_file"

definition open_read :: "fs \<Rightarrow> path \<Rightarrow> exn + bytes" where
  "open_read files file_path =
     (case files file_path of
        None \<Rightarrow> Inl (Exn ''FileNotFoundError'' (lit ''[Errno 2] No such file or directory: '' @ repr file_path))
      | Some f \<Rightarrow> Inr (file_data f))"

definition getmtime :: "fs \<Rightarrow> path \<Rightarrow> exn + real" where
  "getmtime files file_path =
     (case files file_path of
        None \<Rightarrow> Inl (Exn ''FileNotFoundError'' (lit ''[Errno 2] No such file or directory: '' @ repr file_path))
      | Some f \<Rightarrow> Inr (file_mtime f))"

text \<open>\<open>page.extract_text() or ""\<close>.\<close>

definition or_empty :: "pystr option \<Rightarrow> pystr" where
  "or_empty r = (case r of None \<Rightarrow> [] | Some t \<Rightarrow> if t = [] then [] else t)"

text \<open>The loop over \<open>pdf.pages\<close>, appending to \<open>texts\<close>.\<close>

fun extract_pages :: "pdf \<Rightarrow> pystr list \<Rightarrow> pystr list" where
  "extract_pages [] texts = texts"
| "extract_pages (page # rest) texts =
     (let txt = or_empty page in extract_pages rest (texts @ [strip txt]))"

definition read_pdf_pages :: "fs \<Rightarrow> (bytes \<Rightarrow> exn + pdf) \<Rightarrow> path \<Rightarrow> real \<Rightarrow> exn + pystr list" where
  "read_pdf_pages files pdf_open file_path mtime =
     (let texts = [] in
      bind (open_read files file_path) (\<lambda>data.
      bind (pdf_open data) (\<lambda>pdf.
      Inr (extract_pages pdf texts))))"

section \<open>Extraction cache (\<open>@st.cache_data\<close>, line 55)\<close>

text \<open>
  Modelled from the spec: the implementation of the \<open>st.cache_data\<close> decorator is not
  part of the sources. Following section 4.2 of the specification it is a store keyed by
  the call's arguments: a hit returns the stored value without running the function; a
  miss runs the function and stores its result under the key; a call that raises stores
  nothing. \<open>computed\<close> counts the runs of the decorated function.
\<close>

record ('k, 'v) cache =
  entries :: "'k \<rightharpoonup> 'v"
  computed :: nat

definition empty_cache :: "('k, 'v) cache" where
  "empty_cache = \<lparr>entries = Map.empty, computed = 0\<rparr>"

definition cache_data :: "('k \<Rightarrow> exn + 'v) \<Rightarrow> 'k \<Rightarrow> ('k, 'v) cache \<Rightarrow> (exn + 'v) \<times> ('k, 'v) cache" where
  "cache_data f key c =
     (case entries c key of
        Some v \<Rightarrow> (Inr v, c)
      | None \<Rightarrow>
          (case f key of
             Inl e \<Rightarrow> (Inl e, c\<lparr>computed := computed c + 1\<rparr>)
           | Inr v \<Rightarrow> (Inr v, c\<lparr>entries := (entries c)(key \<mapsto> v), computed := computed c + 1\<rparr>)))"

type_synonym page_cache = "(path \<times> real, pystr list) cache"

definition cached_read_pdf_pages ::
    "fs \<Rightarrow> (bytes \<Rightarrow> exn + pdf) \<Rightarrow> path \<Rightarrow> real \<Rightarrow> page_cache \<Rightarrow> (exn + pystr list) \<times> page_cache" where
  "cached_read_pdf_pages files pdf_open file_path mtime c =
     cache_data (\<lambda>(p, m). read_pdf_pages files pdf_open p m) (file_path, mtime) c"

section \<open>Loading the chosen chapter (lines 67--73)\<close>

text \<open>
  What the page shows, and how a run of a block of the script ends: it goes on with a
  value, it stops after \<open>st.stop()\<close>, or an exception leaves the script.
\<close>

datatype ui =
  StError pystr | StWarning pystr | StInfo pystr | StMarkdown pystr | StWrite pystr | StSpinner pystr

datatype 'a run = Continue 'a | Stopped "ui list" | Uncaught exn

definition load_pages ::
    "fs \<Rightarrow> (bytes \<Rightarrow> exn + pdf) \<Rightarrow> path \<Rightarrow> page_cache \<Rightarrow> (pystr list) run \<times> page_cache" where
  "load_pages files pdf_open chapter_path c =
     (case getmtime files chapter_path of
        Inl e \<Rightarrow> (Uncaught e, c)
      | Inr mtime \<Rightarrow>
          (case cached_read_pdf_pages files pdf_open chapter_path mtime c of
             (Inl e, c') \<Rightarrow> (Uncaught e, c')
           | (Inr pages, c') \<Rightarrow>
               (let num_pages = length pages in
                if num_pages = 0
                then (Stopped [StError (lit ''Couldn't read any pages from this PDF.'')], c')
                else (Continue pages, c'))))"

section \<open>Guided tutor templates (lines 97--119)\<close>

text \<open>The dictionary keeps its insertion order; it is an association list.\<close>

definition QUESTION_TEMPLATES :: "(pystr \<times> pystr) list" where
  "QUESTION_TEMPLATES =
     [(lit ''Summarize key points'',
       lit ''Summarize the most important ideas on this page in simple bullet points for a 9th grade student.''),
      (lit ''Explain like I'm in high school'',
       lit ''Explain the page content in very simple words for a high school student. Avoid jargon. Use short sentences and small examples.''),
      (lit ''Explain like I'm in elementary school'',
       lit ''Explain the page as if I am in grade 5. Use everyday examples and comparisons a child understands.''),
      (lit ''Make quiz questions'',
       lit ''Create 3 short multiple-choice questions (with 4 options each) from this page. Mark the correct answers clearly in the end.''),
      (lit ''Define difficult words'',
       lit ''List any difficult or technical words on this page and define them in very simple terms.''),
      (lit ''Step-by-step explanation'',
       lit ''Break down the content of this page step-by-step in clear, numbered points.''),
      (lit ''Real-life example'',
       lit ''Give one simple real-life example that matches the idea on this page. Keep it relevant for a school student.''),
      (lit ''Quick recap (30 seconds)'',
       lit ''Give a 4'' @ [8211] @ lit ''6 bullet '' @ [8216] @ lit ''quick recap'' @ [8217] @
       lit '' of this page as if I only have 30 seconds before a test.'')]"

text \<open>\<open>d[k]\<close> on a dictionary: a missing key raises.\<close>

definition getitem :: "(pystr \<times> 'v) list \<Rightarrow> pystr \<Rightarrow> exn + 'v" where
  "getitem d k =
     (case map_of d k of
        None \<Rightarrow> Inl (Exn ''KeyError'' (repr k))
      | Some v \<Rightarrow> Inr v)"

text \<open>The options of the help selector, and the question that a chosen mode gives.\<close>

definition mode_options :: "pystr list" where
  "mode_options = [lit ''Custom question''] @ map fst QUESTION_TEMPLATES"

definition question :: "pystr \<Rightarrow> pystr \<Rightarrow> exn + (pystr \<times> ui list)" where
  "question mode text_input =
     (if mode = lit ''Custom question''
      then Inr (text_input, [])
      else bind (getitem QUESTION_TEMPLATES mode) (\<lambda>q.
             Inr (q, [StInfo (lit ''Template selected: **'' @ mode @ lit ''**'')])))"

section \<open>The LLM call (lines 124--164)\<close>

text \<open>
  The client library and the hosted endpoint are outside the repository: \<open>remote\<close> is a
  parameter with the two calls the script makes. \<open>new_client\<close> is the constructor
  \<open>OpenAI(api_key=...)\<close>, which builds a client or raises. \<open>chat_create\<close> is
  \<open>client.chat.completions.create\<close>, which raises or yields the \<open>message.content\<close> of each
  completion choice (\<open>None\<close> when a choice has no content). Every request that is sent
  is appended to a log. The literal \<open>0.3\<close> of the temperature is passed on unchanged and
  is kept as the exact decimal.
\<close>

record client =
  client_api_key :: pystr

record request =
  req_model :: pystr
  req_messages :: "(pystr \<times> pystr) list"
  req_temperature :: real

type_synonym response = "pystr option list"
type_synonym log = "(client \<times> request) list"

record remote =
  new_client :: "pystr \<Rightarrow> exn + client"
  chat_create :: "client \<Rightarrow> request \<Rightarrow> exn + response"

definition system_prompt :: pystr where
  "system_prompt =
     lit ''You are a patient, friendly tutor for school students (elementary to high school). '' @
     lit ''Answer as simply as possible using ONLY the provided text (which includes the selected page plus its neighbors). '' @
     lit ''If the answer is not in the provided text, say: 'I can't find this in the provided pages.' '' @
     lit ''Prefer bullet points, short sentences, and clear examples. Avoid jargon.''"

definition user_prompt :: "pystr \<Rightarrow> pystr \<Rightarrow> pystr" where
  "user_prompt bounded question_text =
     lit ''Context (selected page with '' @ [177] @ lit ''1 neighbors):\<newline>---\<newline>'' @ bounded @
       lit ''\<newline>---\<newline>\<newline>'' @
     lit ''Student request: '' @ question_text @ lit ''\<newline>\<newline>'' @
     lit ''Rules:\<newline>'' @
     lit ''1) Use ONLY the text above.\<newline>'' @
     lit ''2) Keep it simple for a school student.\<newline>'' @
     lit ''3) Use bullets or short steps when helpful.\<newline>'' @
     lit ''4) If info is missing, say you can't find it in the provided pages.''"

text \<open>The sentence the system prompt tells the model to say when the answer is missing.\<close>

definition fallback_phrase :: pystr where
  "fallback_phrase = lit ''I can't find this in the provided pages.''"

definition compose :: "pystr \<Rightarrow> pystr \<Rightarrow> (pystr \<times> pystr) list" where
  "compose context question_text =
     (let system = system_prompt;
          bounded = (if context = [] then [] else context);
          user = user_prompt bounded question_text
      in [(lit ''system'', system), (lit ''user'', user)])"

text \<open>The body of the \<open>try\<close> block: the request, then \<open>resp.choices[0].message.content.strip()\<close>.\<close>

definition completion :: "remote \<Rightarrow> client \<Rightarrow> request \<Rightarrow> exn + pystr" where
  "completion remote_call cl req =
     bind (chat_create remote_call cl req) (\<lambda>resp.
     bind (index resp 0) (\<lambda>content.
     case content of
       None \<Rightarrow> Inl (Exn ''AttributeError''
                  ([39] @ lit ''NoneType' object has no attribute '' @ [39] @ lit ''strip'' @ [39]))
     | Some t \<Rightarrow> Inr (strip t)))"

text \<open>
  \<open>openai_imported\<close> says whether the import at the top of the file succeeded
  (\<open>OpenAI is not None\<close>). \<open>not api_key\<close> holds for \<open>None\<close> and for the empty string. The
  client is built at line 131, before the \<open>try\<close>: an exception of the constructor leaves
  the function. Inside the \<open>try\<close>, \<open>except Exception\<close> turns an exception that derives from
  \<open>Exception\<close> into the error string; any other exception leaves the function. The answer
  is paired with the log of requests.
\<close>

definition call_llm ::
    "bool \<Rightarrow> remote \<Rightarrow> pystr option \<Rightarrow> pystr \<Rightarrow> pystr \<Rightarrow> pystr \<Rightarrow> log \<Rightarrow> (exn + pystr) \<times> log" where
  "call_llm openai_imported remote_call api_key model context question_text sent =
     (if \<not> openai_imported
      then (Inr (lit ''OpenAI SDK not found. Run: pip install openai>=1.0.0''), sent)
      else
        (case (if api_key = Some [] then None else api_key) of
           None \<Rightarrow>
             (Inr (lit ''No API key provided. Add it in the sidebar or set OPENAI_API_KEY.''), sent)
         | Some key \<Rightarrow>
             (case new_client remote_call key of
                Inl e \<Rightarrow> (Inl e, sent)
              | Inr cl \<Rightarrow>
                  (let req = \<lparr>req_model = model, req_messages = compose context question_text,
                             req_temperature = 3 / 10\<rparr>
                   in (case completion remote_call cl req of
                         Inr answer \<Rightarrow> Inr answer
                       | Inl e \<Rightarrow>
                           if is_exception e then Inr (lit ''LLM error: '' @ str_exn e) else Inl e,
                       sent @ [(cl, req)])))))"

section \<open>The Ask button (lines 166--173)\<close>

definition on_ask ::
    "bool \<Rightarrow> bool \<Rightarrow> remote \<Rightarrow> pystr option \<Rightarrow> pystr \<Rightarrow> pystr \<Rightarrow> pystr \<Rightarrow> log \<Rightarrow> (exn + ui list) \<times> log" where
  "on_ask ask openai_imported remote_call api_key model_name context question_text sent =
     (if ask
      then
        if strip question_text = []
        then (Inr [StWarning (lit ''Please type or select a question.'')], sent)
        else
          (case call_llm openai_imported remote_call api_key model_name context question_text sent of
             (Inl e, sent') \<Rightarrow> (Inl e, sent')
           | (Inr answer, sent') \<Rightarrow>
               (Inr [StSpinner (lit ''Thinking...''), StMarkdown (lit ''**Answer:**''), StWrite answer],
                sent'))
      else (Inr [], sent))"

section \<open>Stand-ins for the outside world\<close>

text \<open>
  Small executable stand-ins for the PDF library, the file system and the endpoint, on
  which the model is run at concrete inputs. The toy document format is the header
  \<open>%PDF\<close> followed by one byte per page: byte 0 is a page without a text layer, any other
  byte is a page whose text is that one character.
\<close>

definition toy_pdf_open :: "bytes \<Rightarrow> exn + pdf" where
  "toy_pdf_open data =
     (if take 4 data = lit ''%PDF''
      then Inr (map (\<lambda>b. if b = 0 then None else Some [b]) (drop 4 data))
      else Inl (Exn ''PDFSyntaxError'' (lit ''No /Root object! - Is this really a PDF?'')))"

definition toy_files :: fs where
  "toy_files =
     [lit ''ch1.pdf'' \<mapsto> \<lparr>file_data = lit ''%PDFa'' @ [0] @ lit '' b'', file_mtime = 1\<rparr>,
      lit ''notes.pdf'' \<mapsto> \<lparr>file_data = lit ''plain text, not a PDF'', file_mtime = 1\<rparr>]"

definition toy_files_edited :: fs where
  "toy_files_edited = toy_files(lit ''ch1.pdf'' \<mapsto> \<lparr>file_data = lit ''%PDFxy'', file_mtime = 2\<rparr>)"

definition toy_client :: "pystr \<Rightarrow> exn + client" where
  "toy_client key = Inr \<lparr>client_api_key = key\<rparr>"


definition remote_up :: remote where
  "remote_up =
     \<lparr>new_client = toy_client,
      chat_create = (\<lambda>cl req. Inr [Some (lit '' It is about memory. '')])\<rparr>"





section \<open>Basic facts\<close>

lemma bind_Inr [simp]: "bind (Inr v) k = k v"
  by (simp add: bind_def)

lemma bind_Inl [simp]: "bind (Inl e) k = Inl e"
  by (simp add: bind_def)

lemma index_in_range: "0 \<le> i \<Longrightarrow> i < int (length xs) \<Longrightarrow> index xs i = Inr (xs ! nat i)"
  by (simp add: index_def)

section \<open>The context window\<close>

lemma prev_label:
  "lit ''[Prev: Page '' @ str_int n @ lit '']\<newline>'' @ b = labelled_entry ''Prev'' n b"
  by (simp add: labelled_entry_def lit_def)

lemma current_label:
  "lit ''[Current: Page '' @ str_int n @ lit '']\<newline>'' @ b = labelled_entry ''Current'' n b"
  by (simp add: labelled_entry_def lit_def)

lemma next_label:
  "lit ''[Next: Page '' @ str_int n @ lit '']\<newline>'' @ b = labelled_entry ''Next'' n b"
  by (simp add: labelled_entry_def lit_def)

lemma labelled_entry_nonempty: "labelled_entry kind n b \<noteq> []"
  by (simp add: labelled_entry_def lit_def)

text \<open>
  For a valid index every read of \<open>pages\<close> is in range, so nothing raises and the list
  of entries is the one the three steps of the builder describe.
\<close>

lemma context_texts_valid:
  assumes "1 \<le> i" and "i \<le> int (length pages)"
  shows "context_texts pages i =
           Inr ((if 1 < i then [labelled_entry ''Prev'' (i - 1) (pages ! nat (i - 2))] else []) @
                [labelled_entry ''Current'' i (pages ! nat (i - 1))] @
                (if i < int (length pages) then [labelled_entry ''Next'' (i + 1) (pages ! nat i)] else []))"
proof -
  have cur: "index pages (i - 1) = Inr (pages ! nat (i - 1))"
    using assms by (intro index_in_range) auto
  have prv: "1 < i \<Longrightarrow> index pages (i - 2) = Inr (pages ! nat (i - 2))"
    using assms by (intro index_in_range) auto
  have nxt: "i < int (length pages) \<Longrightarrow> index pages i = Inr (pages ! nat i)"
    using assms by (intro index_in_range) auto
  show ?thesis
    unfolding context_texts_def Let_def
    by (simp add: cur prv nxt prev_label current_label next_label)
qed

text \<open>No entry is the empty string, so the comprehension \<open>[t for t in context_texts if t]\<close> keeps all.\<close>

lemma context_text_valid:
  assumes "1 \<le> i" and "i \<le> int (length pages)" and "context_texts pages i = Inr ts"
  shows "context_text pages i = Inr (join separator ts)"
proof -
  have "\<forall>t \<in> set ts. t \<noteq> []"
    using assms(3) unfolding context_texts_valid [OF assms(1,2)]
    by (auto simp: labelled_entry_nonempty labelled_entry_nonempty [THEN not_sym] split: if_splits)
  then have "filter (\<lambda>t. t \<noteq> []) ts = ts"
    by (simp add: filter_id_conv)
  then show ?thesis
    by (simp add: context_text_def assms(3) separator_def)
qed

text \<open>
  C1. For a non-empty list of \<open>N\<close> page texts and a selected index \<open>1 \<le> i \<le> N\<close>, the
  context is one string: the entry labelled \<open>Current: Page i\<close> holding \<open>pages[i-1]\<close>,
  preceded by the entry \<open>Prev: Page i-1\<close> holding \<open>pages[i-2]\<close> and the separator exactly
  when \<open>i > 1\<close>, and followed by the separator and the entry \<open>Next: Page i+1\<close> holding
  \<open>pages[i]\<close> exactly when \<open>i < N\<close>. For \<open>N = 1\<close> it is the Current entry alone.
\<close>

theorem context_text_window:
  assumes "pages \<noteq> []" and "1 \<le> i" and "i \<le> int (length pages)"
  shows "context_text pages i =
           Inr ((if 1 < i
                 then labelled_entry ''Prev'' (i - 1) (pages ! nat (i - 2)) @ separator else []) @
                labelled_entry ''Current'' i (pages ! nat (i - 1)) @
                (if i < int (length pages)
                 then separator @ labelled_entry ''Next'' (i + 1) (pages ! nat i) else []))
         \<and> (length pages = 1 \<longrightarrow>
              context_text pages i = Inr (labelled_entry ''Current'' 1 (pages ! 0)))"
proof -
  have one: "length pages = 1 \<Longrightarrow> i = 1"
    using assms by simp
  show ?thesis
    using context_text_valid [OF assms(2,3) context_texts_valid [OF assms(2,3)]] one
    by auto
qed

theorem context_text_window_witness:
  "context_text [lit ''Intro text.'', lit ''Core concept text.'', lit ''Summary text.''] 2 =
     Inr (lit (''[Prev: Page 1]\<newline>Intro text.\<newline>\<newline>-----\<newline>\<newline>'' @
               ''[Current: Page 2]\<newline>Core concept text.\<newline>\<newline>-----\<newline>\<newline>'' @
               ''[Next: Page 3]\<newline>Summary text.''))
   \<and> context_text [lit ''Only page.''] 1 = Inr (lit ''[Current: Page 1]\<newline>Only page.'')"
  using context_text_window [of "[lit ''Intro text.'', lit ''Core concept text.'', lit ''Summary text.'']" 2]
    context_text_window [of "[lit ''Only page.'']" 1]
  by (simp add: labelled_entry_def separator_def lit_def str_int_def digits.simps)

text \<open>
  C2. For a valid index, a page of the window whose text is the empty string still has
  its labelled entry in the output, with an empty body: the entries that are joined are
  all the entries that were built, one for the current page and one for each neighbour
  in range, whatever the page texts are.
\<close>

theorem empty_page_keeps_entry:
  assumes "1 \<le> i" and "i \<le> int (length pages)"
  shows "\<exists>ts. context_texts pages i = Inr ts
           \<and> context_text pages i = Inr (join separator ts)
           \<and> int (length ts) = (if 1 < i then 1 else 0) + 1 + (if i < int (length pages) then 1 else 0)
           \<and> (pages ! nat (i - 1) = [] \<longrightarrow> labelled_entry ''Current'' i [] \<in> set ts)
           \<and> (1 < i \<and> pages ! nat (i - 2) = [] \<longrightarrow> labelled_entry ''Prev'' (i - 1) [] \<in> set ts)
           \<and> (i < int (length pages) \<and> pages ! nat i = [] \<longrightarrow>
                labelled_entry ''Next'' (i + 1) [] \<in> set ts)"
  using context_text_valid [OF assms context_texts_valid [OF assms]]
  by (auto simp: context_texts_valid [OF assms])

theorem empty_page_keeps_entry_witness:
  "\<exists>ts. context_texts [[], [], []] 2 = Inr ts
      \<and> context_text [[], [], []] 2 = Inr (join separator ts)
      \<and> length ts = 3
      \<and> lit ''[Current: Page 2]\<newline>'' \<in> set ts
      \<and> lit ''[Prev: Page 1]\<newline>'' \<in> set ts
      \<and> lit ''[Next: Page 3]\<newline>'' \<in> set ts"
  using empty_page_keeps_entry [of 2 "[[], [], []]"]
  by (simp add: labelled_entry_def lit_def str_int_def digits.simps)

section \<open>Stripping and extraction\<close>

lemma rstrip_decomposition: "u = rstrip u @ rev (takeWhile is_space (rev u))"
proof -
  have "rstrip u @ rev (takeWhile is_space (rev u))
          = rev (takeWhile is_space (rev u) @ dropWhile is_space (rev u))"
    by (simp only: rstrip_def rev_append)
  also have "\<dots> = rev (rev u)"
    by (simp only: takeWhile_dropWhile_id)
  finally show ?thesis
    by simp
qed

lemma strip_decomposition:
  "s = takeWhile is_space s @ strip s @ rev (takeWhile is_space (rev (dropWhile is_space s)))"
proof -
  have "dropWhile is_space s = strip s @ rev (takeWhile is_space (rev (dropWhile is_space s)))"
    using rstrip_decomposition [of "dropWhile is_space s"] by (simp only: strip_def lstrip_def)
  then have "takeWhile is_space s @ dropWhile is_space s
               = takeWhile is_space s @ strip s @ rev (takeWhile is_space (rev (dropWhile is_space s)))"
    by (simp only:)
  then show ?thesis
    by (simp only: takeWhile_dropWhile_id)
qed

lemma strip_last: "strip s \<noteq> [] \<Longrightarrow> \<not> is_space (last (strip s))"
  unfolding strip_def rstrip_def lstrip_def
  by (simp add: last_rev hd_dropWhile)

lemma strip_hd:
  assumes "strip s \<noteq> []"
  shows "\<not> is_space (hd (strip s))"
proof -
  define u where "u = dropWhile is_space s"
  have u: "u = strip s @ rev (takeWhile is_space (rev u))"
    using rstrip_decomposition [of u] by (simp only: strip_def lstrip_def u_def)
  have "u \<noteq> []"
    using assms u by (metis append_is_Nil_conv)
  then have "\<not> is_space (hd u)"
    unfolding u_def by (rule hd_dropWhile)
  moreover have "hd u = hd (strip s)"
    using assms u by (metis hd_append2)
  ultimately show ?thesis
    by simp
qed

lemma strip_Nil [simp]: "strip [] = []"
  by (simp add: strip_def lstrip_def rstrip_def)

lemma strip_only_space:
  assumes "\<forall>c \<in> set s. is_space c"
  shows "strip s = []"
proof -
  have d: "dropWhile is_space s = []"
    using assms by simp
  show ?thesis
    by (simp only: strip_def rstrip_def lstrip_def d rev.simps dropWhile.simps)
qed

lemma extract_pages_map:
  "extract_pages pdf texts = texts @ map (\<lambda>page. strip (or_empty page)) pdf"
  by (induction pdf arbitrary: texts) simp_all

lemma or_empty_cases: "or_empty page = (case page of None \<Rightarrow> [] | Some t \<Rightarrow> t)"
  by (simp add: or_empty_def split: option.splits)

lemma strip_or_empty: "strip (or_empty page) = (case page of None \<Rightarrow> [] | Some t \<Rightarrow> strip t)"
  by (simp add: or_empty_cases split: option.splits)

text \<open>
  C6. For valid PDF bytes the extractor returns one string per page, in page order: for
  a page whose extracted text is \<open>t\<close> the string is \<open>t\<close> with whitespace removed at both
  ends and nowhere else, and for a page with no extractable text (\<open>None\<close> or the empty
  string) it is the empty string, so there are as many strings as pages.
\<close>

theorem read_pdf_pages_per_page:
  assumes "files file_path = Some f" and "pdf_open (file_data f) = Inr pdf"
  shows "read_pdf_pages files pdf_open file_path mtime
           = Inr (map (\<lambda>page. case page of None \<Rightarrow> [] | Some t \<Rightarrow> strip t) pdf)
         \<and> (\<exists>texts. read_pdf_pages files pdf_open file_path mtime = Inr texts
               \<and> length texts = length pdf
               \<and> (\<forall>k < length pdf.
                     (pdf ! k = None \<or> pdf ! k = Some [] \<longrightarrow> texts ! k = [])
                     \<and> (\<forall>t. pdf ! k = Some t \<longrightarrow>
                           (\<exists>l r. t = l @ texts ! k @ r
                                  \<and> (\<forall>c \<in> set l. is_space c) \<and> (\<forall>c \<in> set r. is_space c)))
                     \<and> (texts ! k = [] \<or>
                          \<not> is_space (hd (texts ! k)) \<and> \<not> is_space (last (texts ! k)))))"
proof -
  let ?texts = "map (\<lambda>page. case page of None \<Rightarrow> [] | Some t \<Rightarrow> strip t) pdf"
  have run: "read_pdf_pages files pdf_open file_path mtime = Inr ?texts"
    by (simp add: read_pdf_pages_def open_read_def assms extract_pages_map strip_or_empty)
  have each: "(pdf ! k = None \<or> pdf ! k = Some [] \<longrightarrow> ?texts ! k = [])
            \<and> (\<forall>t. pdf ! k = Some t \<longrightarrow>
                  (\<exists>l r. t = l @ ?texts ! k @ r
                         \<and> (\<forall>c \<in> set l. is_space c) \<and> (\<forall>c \<in> set r. is_space c)))
            \<and> (?texts ! k = [] \<or> \<not> is_space (hd (?texts ! k)) \<and> \<not> is_space (last (?texts ! k)))"
    if k: "k < length pdf" for k
  proof (cases "pdf ! k")
    case None
    then show ?thesis
      using k by simp
  next
    case (Some t)
    have tk: "?texts ! k = strip t"
      using k Some by simp
    have "\<exists>l r. t = l @ strip t @ r \<and> (\<forall>c \<in> set l. is_space c) \<and> (\<forall>c \<in> set r. is_space c)"
    proof (intro exI conjI)
      show "t = takeWhile is_space t @ strip t @ rev (takeWhile is_space (rev (dropWhile is_space t)))"
        by (rule strip_decomposition)
      show "\<forall>c \<in> set (takeWhile is_space t). is_space c"
        by (auto dest: set_takeWhileD)
      show "\<forall>c \<in> set (rev (takeWhile is_space (rev (dropWhile is_space t)))). is_space c"
        by (auto dest: set_takeWhileD)
    qed
    moreover have "strip t = [] \<or> \<not> is_space (hd (strip t)) \<and> \<not> is_space (last (strip t))"
      using strip_hd [of t] strip_last [of t] by blast
    moreover have "t = [] \<longrightarrow> strip t = []"
      by simp
    ultimately show ?thesis
      unfolding tk using Some by simp
  qed
  show ?thesis
    using run each by (intro conjI exI [of _ ?texts]) simp_all
qed

theorem read_pdf_pages_per_page_witness:
  "toy_files (lit ''ch1.pdf'') = Some \<lparr>file_data = lit ''%PDFa'' @ [0] @ lit '' b'', file_mtime = 1\<rparr>
   \<and> toy_pdf_open (lit ''%PDFa'' @ [0] @ lit '' b'')
         = Inr [Some (lit ''a''), None, Some (lit '' ''), Some (lit ''b'')]
   \<and> read_pdf_pages toy_files toy_pdf_open (lit ''ch1.pdf'') 1 = Inr [lit ''a'', [], [], lit ''b'']"
proof -
  let ?pdf = "[Some (lit ''a''), None, Some (lit '' ''), Some (lit ''b'')]"
  have f: "toy_files (lit ''ch1.pdf'')
             = Some \<lparr>file_data = lit ''%PDFa'' @ [0] @ lit '' b'', file_mtime = 1\<rparr>"
    by (simp add: toy_files_def lit_def)
  have p: "toy_pdf_open (lit ''%PDFa'' @ [0] @ lit '' b'') = Inr ?pdf"
    by (simp add: toy_pdf_open_def lit_def)
  have p': "toy_pdf_open (file_data \<lparr>file_data = lit ''%PDFa'' @ [0] @ lit '' b'', file_mtime = 1\<rparr>)
              = Inr ?pdf"
    using p by simp
  have s: "strip [97] = [97]" "strip [32] = []" "strip [98] = [98]"
    by (simp_all add: strip_def lstrip_def rstrip_def is_space_def)
  have "read_pdf_pages toy_files toy_pdf_open (lit ''ch1.pdf'') 1
          = Inr (map (\<lambda>page. case page of None \<Rightarrow> [] | Some t \<Rightarrow> strip t) ?pdf)"
    using read_pdf_pages_per_page
        [where files = toy_files and file_path = "lit ''ch1.pdf''" and pdf_open = toy_pdf_open
           and mtime = 1, OF f p']
    by (rule conjunct1)
  then have "read_pdf_pages toy_files toy_pdf_open (lit ''ch1.pdf'') 1 = Inr [lit ''a'', [], [], lit ''b'']"
    by (simp add: lit_def s)
  with f p show ?thesis
    by simp
qed

section \<open>The extraction cache\<close>

lemma cache_data_hit: "entries c key = Some v \<Longrightarrow> cache_data f key c = (Inr v, c)"
  by (simp add: cache_data_def)

lemma cache_data_miss:
  "entries c key = None \<Longrightarrow> f key = Inr v \<Longrightarrow>
     cache_data f key c = (Inr v, c\<lparr>entries := (entries c)(key \<mapsto> v), computed := computed c + 1\<rparr>)"
  by (simp add: cache_data_def)

lemma cache_data_returns:
  assumes "cache_data f key c = (Inr v, c')"
  shows "entries c' key = Some v"
    and "computed c' = (if entries c key = None then computed c + 1 else computed c)"
    and "\<And>k. k \<noteq> key \<Longrightarrow> entries c' k = entries c k"
  using assms by (auto simp: cache_data_def split: option.splits sum.splits)

text \<open>
  C5. The cache is keyed by the pair (path, mtime). When a query returns a sequence of
  page texts, a second query with the same pair returns the same sequence and extracts
  nothing (whatever the file holds by then), so the extraction has run once if the pair
  was not in the cache and not at all if it was. A
  query for the same path with another mtime that is not in the cache extracts again,
  from the file as it is now, rather than returning the sequence stored under the old
  mtime.
\<close>

theorem extraction_cache_keyed_by_path_and_mtime:
  assumes first: "cached_read_pdf_pages files pdf_open p m c = (Inr v, c1)"
  shows "cached_read_pdf_pages files' pdf_open' p m c1 = (Inr v, c1)
         \<and> computed c1 = (if entries c (p, m) = None then computed c + 1 else computed c)
         \<and> (m' \<noteq> m \<and> entries c (p, m') = None \<and> files' p = Some f'
              \<and> pdf_open (file_data f') = Inr pdf' \<longrightarrow>
              cached_read_pdf_pages files' pdf_open p m' c1
                = (Inr (map (\<lambda>page. strip (or_empty page)) pdf'),
                   c1\<lparr>entries := (entries c1)((p, m') \<mapsto> map (\<lambda>page. strip (or_empty page)) pdf'),
                      computed := computed c1 + 1\<rparr>))"
proof (intro conjI impI)
  note r = cache_data_returns [OF first [unfolded cached_read_pdf_pages_def]]
  show "cached_read_pdf_pages files' pdf_open' p m c1 = (Inr v, c1)"
    unfolding cached_read_pdf_pages_def using r(1) by (rule cache_data_hit)
  show "computed c1 = (if entries c (p, m) = None then computed c + 1 else computed c)"
    using r(2) .
  assume a: "m' \<noteq> m \<and> entries c (p, m') = None \<and> files' p = Some f'
              \<and> pdf_open (file_data f') = Inr pdf'"
  then have miss: "entries c1 (p, m') = None"
    using r(3) [of "(p, m')"] by simp
  have fresh: "read_pdf_pages files' pdf_open p m' = Inr (map (\<lambda>page. strip (or_empty page)) pdf')"
    using a by (simp add: read_pdf_pages_def open_read_def extract_pages_map)
  show "cached_read_pdf_pages files' pdf_open p m' c1
          = (Inr (map (\<lambda>page. strip (or_empty page)) pdf'),
             c1\<lparr>entries := (entries c1)((p, m') \<mapsto> map (\<lambda>page. strip (or_empty page)) pdf'),
                computed := computed c1 + 1\<rparr>)"
    unfolding cached_read_pdf_pages_def
    by (rule cache_data_miss [OF miss]) (simp add: fresh)
qed

theorem extraction_cache_keyed_by_path_and_mtime_witness:
  "cached_read_pdf_pages toy_files toy_pdf_open (lit ''ch1.pdf'') 1 empty_cache
     = (Inr [lit ''a'', [], [], lit ''b''],
        snd (cached_read_pdf_pages toy_files toy_pdf_open (lit ''ch1.pdf'') 1 empty_cache))
   \<and> cached_read_pdf_pages toy_files_edited toy_pdf_open (lit ''ch1.pdf'') 1
         (snd (cached_read_pdf_pages toy_files toy_pdf_open (lit ''ch1.pdf'') 1 empty_cache))
       = (Inr [lit ''a'', [], [], lit ''b''],
          snd (cached_read_pdf_pages toy_files toy_pdf_open (lit ''ch1.pdf'') 1 empty_cache))
   \<and> computed (snd (cached_read_pdf_pages toy_files toy_pdf_open (lit ''ch1.pdf'') 1 empty_cache)) = 1
   \<and> fst (cached_read_pdf_pages toy_files_edited toy_pdf_open (lit ''ch1.pdf'') 2
              (snd (cached_read_pdf_pages toy_files toy_pdf_open (lit ''ch1.pdf'') 1 empty_cache)))
       = Inr [lit ''x'', lit ''y'']
   \<and> computed (snd (cached_read_pdf_pages toy_files_edited toy_pdf_open (lit ''ch1.pdf'') 2
              (snd (cached_read_pdf_pages toy_files toy_pdf_open (lit ''ch1.pdf'') 1 empty_cache)))) = 2"
proof -
  define c1 where
    "c1 = snd (cached_read_pdf_pages toy_files toy_pdf_open (lit ''ch1.pdf'') 1 empty_cache)"
  have space: "strip [32] = []"
    by (simp add: strip_def lstrip_def rstrip_def is_space_def)
  have letter: "strip [97] = [97]" "strip [98] = [98]" "strip [120] = [120]" "strip [121] = [121]"
    by (simp_all add: strip_def lstrip_def rstrip_def is_space_def)
  have first: "cached_read_pdf_pages toy_files toy_pdf_open (lit ''ch1.pdf'') 1 empty_cache
                 = (Inr [lit ''a'', [], [], lit ''b''], c1)"
    unfolding c1_def
    by (simp add: cached_read_pdf_pages_def cache_data_def empty_cache_def read_pdf_pages_def
        open_read_def toy_files_def toy_pdf_open_def or_empty_def lit_def space letter)
  have edited: "toy_files_edited (lit ''ch1.pdf'') = Some \<lparr>file_data = lit ''%PDFxy'', file_mtime = 2\<rparr>"
    by (simp add: toy_files_edited_def)
  have parsed: "toy_pdf_open (file_data \<lparr>file_data = lit ''%PDFxy'', file_mtime = 2\<rparr>)
                  = Inr [Some (lit ''x''), Some (lit ''y'')]"
    by (simp add: toy_pdf_open_def lit_def)
  have changed: "(2::real) \<noteq> 1 \<and> entries (empty_cache :: page_cache) (lit ''ch1.pdf'', 2) = None
                   \<and> toy_files_edited (lit ''ch1.pdf'') = Some \<lparr>file_data = lit ''%PDFxy'', file_mtime = 2\<rparr>
                   \<and> toy_pdf_open (file_data \<lparr>file_data = lit ''%PDFxy'', file_mtime = 2\<rparr>)
                         = Inr [Some (lit ''x''), Some (lit ''y'')]"
    using edited parsed by (simp add: empty_cache_def)
  note inst = extraction_cache_keyed_by_path_and_mtime
      [OF first, where files' = toy_files_edited and pdf_open' = toy_pdf_open and m' = 2
         and f' = "\<lparr>file_data = lit ''%PDFxy'', file_mtime = 2\<rparr>"
         and pdf' = "[Some (lit ''x''), Some (lit ''y'')]"]
  have again: "cached_read_pdf_pages toy_files_edited toy_pdf_open (lit ''ch1.pdf'') 1 c1
                 = (Inr [lit ''a'', [], [], lit ''b''], c1)"
    using inst by (rule conjunct1)
  have count: "computed c1 = 1"
    using inst by (simp add: empty_cache_def)
  have new: "cached_read_pdf_pages toy_files_edited toy_pdf_open (lit ''ch1.pdf'') 2 c1
               = (Inr (map (\<lambda>page. strip (or_empty page)) [Some (lit ''x''), Some (lit ''y'')]),
                  c1\<lparr>entries := (entries c1)((lit ''ch1.pdf'', 2) \<mapsto>
                        map (\<lambda>page. strip (or_empty page)) [Some (lit ''x''), Some (lit ''y'')]),
                     computed := computed c1 + 1\<rparr>)"
    using inst changed by blast
  have "fst (cached_read_pdf_pages toy_files_edited toy_pdf_open (lit ''ch1.pdf'') 2 c1)
          = Inr [lit ''x'', lit ''y'']"
    unfolding new by (simp add: or_empty_def lit_def letter)
  moreover have "computed (snd (cached_read_pdf_pages toy_files_edited toy_pdf_open (lit ''ch1.pdf'') 2 c1)) = 2"
    unfolding new using count by simp
  ultimately show ?thesis
    using first again count unfolding c1_def by simp
qed

section \<open>Loading a chapter that is not a PDF\<close>

text \<open>
  Neither \<open>read_pdf_pages\<close> nor the lines that call it catch anything: when the library
  rejects the bytes, its exception leaves the script and no message of the script's own
  is shown.
\<close>

lemma load_pages_parse_failure:
  assumes "files chapter_path = Some f" and "pdf_open (file_data f) = Inl e"
    and "entries c (chapter_path, file_mtime f) = None"
  shows "fst (load_pages files pdf_open chapter_path c) = Uncaught e"
  using assms
  by (simp add: load_pages_def getmtime_def cached_read_pdf_pages_def cache_data_def
      read_pdf_pages_def open_read_def)

text \<open>The neighbouring check does report a document from which no page could be read.\<close>

lemma load_pages_no_pages:
  assumes "files chapter_path = Some f" and "pdf_open (file_data f) = Inr []"
    and "entries c (chapter_path, file_mtime f) = None"
  shows "fst (load_pages files pdf_open chapter_path c)
           = Stopped [StError (lit ''Couldn't read any pages from this PDF.'')]"
  using assms
  by (simp add: load_pages_def getmtime_def cached_read_pdf_pages_def cache_data_def
      read_pdf_pages_def open_read_def)

text \<open>
  C3, as the claim states it, fails: it asks that bytes which are not a valid document
  end in an error message shown by the caller. At the file \<open>notes.pdf\<close>, whose bytes are
  plain text, the run of the loading lines ends with the library's exception uncaught,
  and the script has shown nothing.
\<close>

theorem load_pages_invalid_document_uncaught:
  "fst (load_pages toy_files toy_pdf_open (lit ''notes.pdf'') empty_cache)
     = Uncaught (Exn ''PDFSyntaxError'' (lit ''No /Root object! - Is this really a PDF?''))"
proof -
  have f: "toy_files (lit ''notes.pdf'')
             = Some \<lparr>file_data = lit ''plain text, not a PDF'', file_mtime = 1\<rparr>"
    by (simp add: toy_files_def lit_def)
  have p: "toy_pdf_open (file_data \<lparr>file_data = lit ''plain text, not a PDF'', file_mtime = 1\<rparr>)
             = Inl (Exn ''PDFSyntaxError'' (lit ''No /Root object! - Is this really a PDF?''))"
    by (simp add: toy_pdf_open_def lit_def)
  show ?thesis
    by (rule load_pages_parse_failure
          [where files = toy_files and chapter_path = "lit ''notes.pdf''" and pdf_open = toy_pdf_open,
           OF f p])
       (simp add: empty_cache_def)
qed

text \<open>
  C3, amended. If the bytes of the file are not a valid document, the extractor fails:
  it raises to its caller the very exception with which the PDF library rejected the
  bytes, and returns no page texts.
\<close>

theorem read_pdf_pages_invalid_document:
  assumes "files file_path = Some f" and "pdf_open (file_data f) = Inl e"
  shows "read_pdf_pages files pdf_open file_path mtime = Inl e"
  using assms by (simp add: read_pdf_pages_def open_read_def)

theorem read_pdf_pages_invalid_document_witness:
  "toy_files_edited (lit ''notes.pdf'')
     = Some \<lparr>file_data = lit ''plain text, not a PDF'', file_mtime = 1\<rparr>
   \<and> toy_pdf_open (lit ''plain text, not a PDF'')
       = Inl (Exn ''PDFSyntaxError'' (lit ''No /Root object! - Is this really a PDF?''))
   \<and> read_pdf_pages toy_files_edited toy_pdf_open (lit ''notes.pdf'') 1
       = Inl (Exn ''PDFSyntaxError'' (lit ''No /Root object! - Is this really a PDF?''))"
proof -
  have f: "toy_files_edited (lit ''notes.pdf'')
             = Some \<lparr>file_data = lit ''plain text, not a PDF'', file_mtime = 1\<rparr>"
    by (simp add: toy_files_edited_def toy_files_def lit_def)
  have p: "toy_pdf_open (lit ''plain text, not a PDF'')
             = Inl (Exn ''PDFSyntaxError'' (lit ''No /Root object! - Is this really a PDF?''))"
    by (simp add: toy_pdf_open_def lit_def)
  have p': "toy_pdf_open (file_data \<lparr>file_data = lit ''plain text, not a PDF'', file_mtime = 1\<rparr>)
             = Inl (Exn ''PDFSyntaxError'' (lit ''No /Root object! - Is this really a PDF?''))"
    using p by simp
  show ?thesis
    using read_pdf_pages_invalid_document
        [where files = toy_files_edited and file_path = "lit ''notes.pdf''"
           and pdf_open = toy_pdf_open and mtime = 1, OF f p'] f p
    by simp
qed

section \<open>The LLM call\<close>





lemma call_llm_with_client:
  assumes "key \<noteq> []" and "new_client remote_call key = Inr cl"
  shows "call_llm True remote_call (Some key) model context q sent =
           (case completion remote_call cl
                   \<lparr>req_model = model, req_messages = compose context q, req_temperature = 3 / 10\<rparr> of
              Inr answer \<Rightarrow> Inr answer
            | Inl e \<Rightarrow> if is_exception e then Inr (lit ''LLM error: '' @ str_exn e) else Inl e,
            sent @ [(cl, \<lparr>req_model = model, req_messages = compose context q,
                           req_temperature = 3 / 10\<rparr>)])"
  using assms by (simp add: call_llm_def Let_def)




text \<open>
  C7, as the claim states it, fails where the import of the client library failed: the
  check for the library comes first, so with no credential the answer is the
  library-not-found string, which says nothing about a key or a credential.
\<close>

theorem call_llm_no_key_without_sdk:
  "fst (call_llm False remote_up None (lit ''gpt-4o-mini'') (lit ''Core concept text.'')
          (lit ''What is this?'') [])
     = Inr (lit ''OpenAI SDK not found. Run: pip install openai>=1.0.0'')
   \<and> \<not> contains (lit ''key'') (lit ''OpenAI SDK not found. Run: pip install openai>=1.0.0'')
   \<and> \<not> contains (lit ''Key'') (lit ''OpenAI SDK not found. Run: pip install openai>=1.0.0'')
   \<and> \<not> contains (lit ''credential'') (lit ''OpenAI SDK not found. Run: pip install openai>=1.0.0'')"
  by (simp add: call_llm_def lit_def)

text \<open>
  C7, amended. For every model, context and question: if the client library was
  imported and the credential is absent (\<open>None\<close> or the empty string), the invoker
  returns the fixed string \<open>No API key provided. Add it in the sidebar or set
  OPENAI_API_KEY.\<close> without raising and without sending a request, and the Ask handler
  writes that string as the answer to a non-blank question.
\<close>

theorem call_llm_no_key:
  assumes "openai_imported" and "api_key = None \<or> api_key = Some []"
  shows "call_llm openai_imported remote_call api_key model context q sent
           = (Inr (lit ''No API key provided. Add it in the sidebar or set OPENAI_API_KEY.''), sent)
         \<and> contains (lit ''No API key'')
              (lit ''No API key provided. Add it in the sidebar or set OPENAI_API_KEY.'')
         \<and> (strip q \<noteq> [] \<longrightarrow>
              on_ask True openai_imported remote_call api_key model context q sent
                = (Inr [StSpinner (lit ''Thinking...''), StMarkdown (lit ''**Answer:**''),
                        StWrite (lit ''No API key provided. Add it in the sidebar or set OPENAI_API_KEY.'')],
                   sent))"
proof -
  have r: "call_llm openai_imported remote_call api_key model context q sent
             = (Inr (lit ''No API key provided. Add it in the sidebar or set OPENAI_API_KEY.''), sent)"
    using assms by (auto simp: call_llm_def)
  have c: "contains (lit ''No API key'')
             (lit ''No API key provided. Add it in the sidebar or set OPENAI_API_KEY.'')"
    by (simp add: lit_def)
  show ?thesis
    using r c by (simp add: on_ask_def)
qed

theorem call_llm_no_key_witness:
  "call_llm True remote_up (Some []) (lit ''gpt-4o-mini'') (lit ''Core concept text.'')
       (lit ''What is this?'') []
     = (Inr (lit ''No API key provided. Add it in the sidebar or set OPENAI_API_KEY.''), [])
   \<and> on_ask True True remote_up (Some []) (lit ''gpt-4o-mini'') (lit ''Core concept text.'')
       (lit ''What is this?'') []
     = (Inr [StSpinner (lit ''Thinking...''), StMarkdown (lit ''**Answer:**''),
             StWrite (lit ''No API key provided. Add it in the sidebar or set OPENAI_API_KEY.'')], [])"
proof -
  have q: "strip (lit ''What is this?'') \<noteq> []"
    by (simp add: strip_def lstrip_def rstrip_def lit_def is_space_def)
  show ?thesis
    using call_llm_no_key [of True "Some []" remote_up "lit ''gpt-4o-mini''"
        "lit ''Core concept text.''" "lit ''What is this?''" "[]"] q
    by simp
qed

text \<open>The request that is sent carries the composed messages, and nothing else is sent.\<close>

lemma call_llm_sends_composed:
  assumes "key \<noteq> []" and "new_client remote_call key = Inr cl"
  shows "snd (call_llm True remote_call (Some key) model context q sent)
           = sent @ [(cl, \<lparr>req_model = model, req_messages = compose context q,
                           req_temperature = 3 / 10\<rparr>)]"
  by (simp add: call_llm_with_client [OF assms])

text \<open>
  C9. The system message of every composed prompt is the same fixed text, whatever the
  context and the question are, and it holds the one sentence the model is told to say
  when the answer is not in the pages; the user message ends with the same fixed rule
  for missing information.
\<close>

theorem fallback_phrase_fixed:
  "compose context q ! 0 = (lit ''system'', system_prompt)
   \<and> compose context q ! 0 = compose context' q' ! 0
   \<and> contains fallback_phrase system_prompt
   \<and> fst (compose context q ! 1) = lit ''user''
   \<and> suffix (lit ''4) If info is missing, say you can't find it in the provided pages.'')
        (snd (compose context q ! 1))"
proof -
  have "contains fallback_phrase system_prompt"
    by (simp add: fallback_phrase_def system_prompt_def lit_def)
  moreover have "suffix (lit ''4) If info is missing, say you can't find it in the provided pages.'')
        (snd (compose context q ! 1))"
    by (simp add: compose_def user_prompt_def Let_def suffix_def)
  ultimately show ?thesis
    by (simp add: compose_def Let_def)
qed

text \<open>A question that is not blank does reach the invoker, which sends one request.\<close>

lemma on_ask_sends:
  assumes "strip q \<noteq> []" and "key \<noteq> []" and "new_client remote_call key = Inr cl"
  shows "snd (on_ask True True remote_call (Some key) model context q sent)
           = sent @ [(cl, \<lparr>req_model = model, req_messages = compose context q,
                           req_temperature = 3 / 10\<rparr>)]"
  using assms(1) by (simp add: on_ask_def call_llm_with_client [OF assms(2,3)] split: sum.splits)

text \<open>
  C10. When Ask is pressed with a question that is empty or only whitespace, the page
  shows the warning and nothing else, and the log of requests is unchanged: the invoker
  is not called and nothing is sent.
\<close>

theorem blank_question_not_sent:
  assumes "\<forall>c \<in> set q. is_space c"
  shows "on_ask True openai_imported remote_call api_key model context q sent
           = (Inr [StWarning (lit ''Please type or select a question.'')], sent)"
  using strip_only_space [OF assms] by (simp add: on_ask_def)

theorem blank_question_not_sent_witness:
  "on_ask True True remote_up (Some (lit ''sk-test'')) (lit ''gpt-4o-mini'') (lit ''Core concept text.'')
       (lit ''   '') []
     = (Inr [StWarning (lit ''Please type or select a question.'')], [])
   \<and> on_ask True True remote_up (Some (lit ''sk-test'')) (lit ''gpt-4o-mini'') (lit ''Core concept text.'')
       [] []
     = (Inr [StWarning (lit ''Please type or select a question.'')], [])"
proof -
  have "\<forall>c \<in> set (lit ''   ''). is_space c"
    by (simp add: lit_def is_space_def)
  then show ?thesis
    using blank_question_not_sent [of "lit ''   ''" True remote_up "Some (lit ''sk-test'')"
        "lit ''gpt-4o-mini''" "lit ''Core concept text.''" "[]"]
      blank_question_not_sent [of "[]" True remote_up "Some (lit ''sk-test'')"
        "lit ''gpt-4o-mini''" "lit ''Core concept text.''" "[]"]
    by simp
qed
section \<open>The template catalog\<close>

text \<open>Every option of the selector is \<open>Custom question\<close> or a key of the catalog.\<close>

lemma mode_options_keys:
  "mode \<in> set mode_options \<longleftrightarrow>
     mode = lit ''Custom question'' \<or> mode \<in> fst ` set QUESTION_TEMPLATES"
  by (auto simp: mode_options_def)

text \<open>
  C8. The catalog has exactly 8 entries with distinct labels. Choosing a label of the
  catalog makes the question the catalog's text for that label, whatever was typed
  before (for \<open>Summarize key points\<close> it is the fixed sentence of the source); choosing
  \<open>Custom question\<close> makes the question the typed text.
\<close>

theorem template_catalog_question:
  "length QUESTION_TEMPLATES = 8
   \<and> distinct (map fst QUESTION_TEMPLATES)
   \<and> lit ''Custom question'' \<notin> set (map fst QUESTION_TEMPLATES)
   \<and> (\<forall>(label, canned) \<in> set QUESTION_TEMPLATES.
         question label typed
           = Inr (canned, [StInfo (lit ''Template selected: **'' @ label @ lit ''**'')]))
   \<and> question (lit ''Summarize key points'') typed
       = Inr (lit ''Summarize the most important ideas on this page in simple bullet points for a 9th grade student.'',
              [StInfo (lit ''Template selected: **Summarize key points**'')])
   \<and> question (lit ''Custom question'') typed = Inr (typed, [])"
proof -
  have n: "length QUESTION_TEMPLATES = 8"
    by (simp add: QUESTION_TEMPLATES_def)
  have d: "distinct (map fst QUESTION_TEMPLATES)"
    by (simp add: QUESTION_TEMPLATES_def lit_def)
  have c: "lit ''Custom question'' \<notin> set (map fst QUESTION_TEMPLATES)"
    by (simp add: QUESTION_TEMPLATES_def lit_def)
  have each: "question label typed
                = Inr (canned, [StInfo (lit ''Template selected: **'' @ label @ lit ''**'')])"
    if m: "(label, canned) \<in> set QUESTION_TEMPLATES" for label canned
  proof -
    have "map_of QUESTION_TEMPLATES label = Some canned"
      using d m by (rule map_of_is_SomeI)
    moreover have "label \<noteq> lit ''Custom question''"
      using c m by force
    ultimately show ?thesis
      by (simp add: question_def getitem_def)
  qed
  have s: "(lit ''Summarize key points'',
            lit ''Summarize the most important ideas on this page in simple bullet points for a 9th grade student.'')
             \<in> set QUESTION_TEMPLATES"
    by (simp add: QUESTION_TEMPLATES_def)
  have "question (lit ''Summarize key points'') typed
       = Inr (lit ''Summarize the most important ideas on this page in simple bullet points for a 9th grade student.'',
              [StInfo (lit ''Template selected: **Summarize key points**'')])"
    using each [OF s] by (simp add: lit_def)
  moreover have "question (lit ''Custom question'') typed = Inr (typed, [])"
    by (simp add: question_def)
  ultimately show ?thesis
    using n d c each by blast
qed

theorem template_catalog_question_witness:
  "(lit ''Make quiz questions'',
    lit ''Create 3 short multiple-choice questions (with 4 options each) from this page. Mark the correct answers clearly in the end.'')
     \<in> set QUESTION_TEMPLATES
   \<and> question (lit ''Make quiz questions'') (lit ''something typed earlier'')
       = Inr (lit ''Create 3 short multiple-choice questions (with 4 options each) from this page. Mark the correct answers clearly in the end.'',
              [StInfo (lit ''Template selected: **Make quiz questions**'')])
   \<and> question (lit ''Custom question'') (lit ''something typed earlier'')
       = Inr (lit ''something typed earlier'', [])"
proof -
  have m: "(lit ''Make quiz questions'',
    lit ''Create 3 short multiple-choice questions (with 4 options each) from this page. Mark the correct answers clearly in the end.'')
     \<in> set QUESTION_TEMPLATES"
    by (simp add: QUESTION_TEMPLATES_def)
  have all: "\<forall>(label, canned) \<in> set QUESTION_TEMPLATES.
         question label (lit ''something typed earlier'')
           = Inr (canned, [StInfo (lit ''Template selected: **'' @ label @ lit ''**'')])"
    and custom: "question (lit ''Custom question'') (lit ''something typed earlier'')
           = Inr (lit ''something typed earlier'', [])"
    using template_catalog_question [of "lit ''something typed earlier''"] by blast+
  have "question (lit ''Make quiz questions'') (lit ''something typed earlier'')
       = Inr (lit ''Create 3 short multiple-choice questions (with 4 options each) from this page. Mark the correct answers clearly in the end.'',
              [StInfo (lit ''Template selected: **'' @ lit ''Make quiz questions'' @ lit ''**'')])"
    using all m by blast
  then show ?thesis
    using m custom by (simp add: lit_def)
qed

end
